theory Spec2Isabelle
  imports Main
begin

section \<open>The converter of main.py: Markdown to PDF and to HTML\<close>

text \<open>
  The program has two operations, \<^verbatim>\<open>md2pdf(md_file, output_file)\<close> and
  \<^verbatim>\<open>md2html(md_file, output_file)\<close>. Each reads a text file, hands the text to a
  library and stores what the library returns. The operations act on files and on the
  standard output, so the embedding threads a \<open>world\<close> through them, and every
  exception of the Python code is an \<open>Inl\<close> result.
\<close>

subsection \<open>Data\<close>

type_synonym path = string

text \<open>A file holds bytes; a \<open>char\<close> of HOL is one byte.\<close>

type_synonym bytes = "char list"

text \<open>A Python \<^verbatim>\<open>str\<close> is a sequence of Unicode code points.\<close>

type_synonym text_str = "nat list"

datatype error =
    FileNotFoundError
  | PermissionError
  | UnicodeDecodeError
  | UnicodeEncodeError
  | LibraryError string

text \<open>
  A path is a string; the file it names is what the operating system resolves it to.
  Two strings may name one file: \<^verbatim>\<open>a.md\<close> and \<^verbatim>\<open>./a.md\<close>, a relative and an
  absolute path, a link and its target. A path that names no file yet resolves to the
  file that opening it for writing would create.
\<close>

type_synonym file_id = nat

text \<open>
  The part of the environment the two operations touch: the resolution of paths, the
  regular files with their contents, the paths \<^verbatim>\<open>open(p, "r")\<close> and
  \<^verbatim>\<open>open(p, "w")\<close> are refused on, and the lines printed so far.
\<close>

record world =
  resolve :: "path \<Rightarrow> file_id"
  files :: "file_id \<rightharpoonup> bytes"
  read_denied :: "path set"
  write_denied :: "path set"
  stdout :: "string list"

subsection \<open>Text files as Python opens them\<close>

text \<open>
  \<^verbatim>\<open>encoding="utf-8"\<close> is the strict codec: the decoder refuses a stray or missing
  continuation byte, an overlong form, a surrogate and a code point above U+10FFFF;
  the encoder refuses a surrogate.
\<close>

definition is_cont :: "nat \<Rightarrow> bool" where
  "is_cont b \<longleftrightarrow> 128 \<le> b \<and> b < 192"

fun decode_units :: "nat list \<Rightarrow> text_str option" where
  "decode_units [] = Some []"
| "decode_units (b0 # bs) =
    (if b0 < 128 then map_option ((#) b0) (decode_units bs)
     else if 194 \<le> b0 \<and> b0 < 224 then
       (case bs of
          b1 # r \<Rightarrow>
            if is_cont b1
            then map_option ((#) ((b0 - 192) * 64 + (b1 - 128))) (decode_units r)
            else None
        | _ \<Rightarrow> None)
     else if 224 \<le> b0 \<and> b0 < 240 then
       (case bs of
          b1 # b2 # r \<Rightarrow>
            if is_cont b1 \<and> is_cont b2
               \<and> 2048 \<le> (b0 - 224) * 4096 + (b1 - 128) * 64 + (b2 - 128)
               \<and> \<not> (55296 \<le> (b0 - 224) * 4096 + (b1 - 128) * 64 + (b2 - 128)
                    \<and> (b0 - 224) * 4096 + (b1 - 128) * 64 + (b2 - 128) < 57344)
            then map_option ((#) ((b0 - 224) * 4096 + (b1 - 128) * 64 + (b2 - 128)))
                   (decode_units r)
            else None
        | _ \<Rightarrow> None)
     else if 240 \<le> b0 \<and> b0 < 245 then
       (case bs of
          b1 # b2 # b3 # r \<Rightarrow>
            if is_cont b1 \<and> is_cont b2 \<and> is_cont b3
               \<and> 65536 \<le> (b0 - 240) * 262144 + (b1 - 128) * 4096 + (b2 - 128) * 64 + (b3 - 128)
               \<and> (b0 - 240) * 262144 + (b1 - 128) * 4096 + (b2 - 128) * 64 + (b3 - 128) < 1114112
            then map_option
                   ((#) ((b0 - 240) * 262144 + (b1 - 128) * 4096 + (b2 - 128) * 64 + (b3 - 128)))
                   (decode_units r)
            else None
        | _ \<Rightarrow> None)
     else None)"

definition utf8_decode :: "bytes \<Rightarrow> text_str option" where
  "utf8_decode bs = decode_units (map of_char bs)"

definition encode_point :: "nat \<Rightarrow> nat list option" where
  "encode_point c =
    (if c < 128 then Some [c]
     else if c < 2048 then Some [192 + c div 64, 128 + c mod 64]
     else if 55296 \<le> c \<and> c < 57344 then None
     else if c < 65536 then
       Some [224 + c div 4096, 128 + (c div 64) mod 64, 128 + c mod 64]
     else if c < 1114112 then
       Some [240 + c div 262144, 128 + (c div 4096) mod 64, 128 + (c div 64) mod 64,
             128 + c mod 64]
     else None)"

fun encode_units :: "text_str \<Rightarrow> nat list option" where
  "encode_units [] = Some []"
| "encode_units (c # cs) =
    (case encode_point c of
       None \<Rightarrow> None
     | Some us \<Rightarrow> map_option ((@) us) (encode_units cs))"

definition utf8_encode :: "text_str \<Rightarrow> bytes option" where
  "utf8_encode s = map_option (map char_of) (encode_units s)"

text \<open>
  Reading in text mode with the default \<^verbatim>\<open>newline=None\<close> turns each of
  \<^verbatim>\<open>\r\n\<close> and \<^verbatim>\<open>\r\<close> into \<^verbatim>\<open>\n\<close>. Writing turns \<^verbatim>\<open>\n\<close> into the platform's
  line separator, which is \<^verbatim>\<open>\n\<close> itself on the POSIX platform modelled here.
\<close>

fun universal_newlines :: "text_str \<Rightarrow> text_str" where
  "universal_newlines (c # d # cs) =
    (if c = 13 \<and> d = 10 then 10 # universal_newlines cs
     else if c = 13 then 10 # universal_newlines (d # cs)
     else c # universal_newlines (d # cs))"
| "universal_newlines [c] = (if c = 13 then [10] else [c])"
| "universal_newlines [] = []"

definition open_read :: "path \<Rightarrow> world \<Rightarrow> error + bytes" where
  "open_read p w =
    (case files w (resolve w p) of
       None \<Rightarrow> Inl FileNotFoundError
     | Some b \<Rightarrow> if p \<in> read_denied w then Inl PermissionError else Inr b)"

text \<open>\<^verbatim>\<open>with open(p, "r", encoding="utf-8") as f: s = f.read()\<close>\<close>

definition read_text :: "path \<Rightarrow> world \<Rightarrow> error + text_str" where
  "read_text p w =
    (case open_read p w of
       Inl e \<Rightarrow> Inl e
     | Inr b \<Rightarrow>
         (case utf8_decode b of
            None \<Rightarrow> Inl UnicodeDecodeError
          | Some s \<Rightarrow> Inr (universal_newlines s)))"

text \<open>Opening for writing creates the file, or truncates the one that is there.\<close>

definition open_write :: "path \<Rightarrow> world \<Rightarrow> error + world" where
  "open_write p w =
    (if p \<in> write_denied w then Inl PermissionError
     else Inr (w\<lparr>files := (files w)(resolve w p \<mapsto> [])\<rparr>))"

text \<open>\<^verbatim>\<open>with open(p, "w", encoding="utf-8") as f: f.write(s)\<close>\<close>

definition write_text :: "path \<Rightarrow> text_str \<Rightarrow> world \<Rightarrow> (error + unit) \<times> world" where
  "write_text p s w =
    (case open_write p w of
       Inl e \<Rightarrow> (Inl e, w)
     | Inr w' \<Rightarrow>
         (case utf8_encode s of
            None \<Rightarrow> (Inl UnicodeEncodeError, w')
          | Some b \<Rightarrow> (Inr (), w'\<lparr>files := (files w')(resolve w' p \<mapsto> b)\<rparr>)))"

definition print :: "string \<Rightarrow> world \<Rightarrow> (error + unit) \<times> world" where
  "print line w = (Inr (), w\<lparr>stdout := stdout w @ [line]\<rparr>)"

subsection \<open>The two libraries\<close>

text \<open>
  Neither library is part of the program, so each is a parameter of the operation that
  imports it. \<^verbatim>\<open>markdown.markdown\<close> is a function from the Markdown text to the HTML
  text that may raise. Of \<^verbatim>\<open>markdown_pdf\<close> the program uses the constructor
  \<^verbatim>\<open>MarkdownPdf()\<close>, \<^verbatim>\<open>Section(text)\<close>, \<^verbatim>\<open>add_section\<close> and \<^verbatim>\<open>save\<close>;
  \<^verbatim>\<open>save(file_name)\<close> serialises the document and stores the bytes at
  \<^verbatim>\<open>file_name\<close>. The \<^verbatim>\<open>import\<close> at the head of each operation is taken to
  succeed, and a library call is a function of its arguments: it reads and changes no
  file other than the one \<^verbatim>\<open>save\<close> writes.
\<close>

type_synonym markdown_fn = "text_str \<Rightarrow> error + text_str"

datatype pdf_section = Section text_str

record 'pdf markdown_pdf =
  MarkdownPdf :: "'pdf"
  add_section :: "'pdf \<Rightarrow> pdf_section \<Rightarrow> error + 'pdf"
  to_bytes :: "'pdf \<Rightarrow> error + bytes"

definition save :: "'pdf markdown_pdf \<Rightarrow> 'pdf \<Rightarrow> path \<Rightarrow> world \<Rightarrow> (error + unit) \<times> world" where
  "save lib pdf file_name w =
    (case to_bytes lib pdf of
       Inl e \<Rightarrow> (Inl e, w)
     | Inr b \<Rightarrow>
         (case open_write file_name w of
            Inl e \<Rightarrow> (Inl e, w)
          | Inr w' \<Rightarrow>
              (Inr (), w'\<lparr>files := (files w')(resolve w' file_name \<mapsto> b)\<rparr>)))"

subsection \<open>The operations\<close>

definition md2pdf :: "'pdf markdown_pdf \<Rightarrow> path \<Rightarrow> path \<Rightarrow> world \<Rightarrow> (error + unit) \<times> world" where
  "md2pdf lib md_file output_file w =
    (case read_text md_file w of
       Inl e \<Rightarrow> (Inl e, w)
     | Inr md_content \<Rightarrow>
         (case add_section lib (MarkdownPdf lib) (Section md_content) of
            Inl e \<Rightarrow> (Inl e, w)
          | Inr pdf_obj \<Rightarrow>
              (case save lib pdf_obj output_file w of
                 (Inl e, w') \<Rightarrow> (Inl e, w')
               | (Inr u, w') \<Rightarrow>
                   print (''PDF generated successfully as '' @ output_file) w')))"

definition md2html :: "markdown_fn \<Rightarrow> path \<Rightarrow> path \<Rightarrow> world \<Rightarrow> (error + unit) \<times> world" where
  "md2html markdown md_file output_file w =
    (case read_text md_file w of
       Inl e \<Rightarrow> (Inl e, w)
     | Inr markdown_text \<Rightarrow>
         (case markdown markdown_text of
            Inl e \<Rightarrow> (Inl e, w)
          | Inr html_output \<Rightarrow> write_text output_file html_output w))"

text \<open>The script itself runs the HTML conversion on two fixed paths.\<close>

definition main :: "markdown_fn \<Rightarrow> world \<Rightarrow> (error + unit) \<times> world" where
  "main markdown w =
    md2html markdown ''Snowflake_Backup_Recovery_Options.md''
      ''Snowflake_Backup_Recovery_Options.html'' w"

subsection \<open>Library instances and a file system for concrete runs\<close>

definition ascii :: "string \<Rightarrow> text_str" where
  "ascii s = map of_char s"

text \<open>A transformer that wraps a non-empty text into one paragraph.\<close>

definition paragraph_markdown :: markdown_fn where
  "paragraph_markdown s = (if s = [] then Inr [] else Inr (ascii ''<p>'' @ s @ ascii ''</p>''))"

text \<open>A transformer that raises on every input.\<close>

definition raising_markdown :: markdown_fn where
  "raising_markdown s = Inl (LibraryError ''transform'')"

text \<open>
  A PDF library whose document is the list of the sections added so far, serialised
  as the signature followed by the texts of the sections; it refuses an empty section.
\<close>

definition listing_pdf :: "pdf_section list markdown_pdf" where
  "listing_pdf =
    \<lparr> MarkdownPdf = [],
      add_section = (\<lambda>doc sec.
         case sec of Section s \<Rightarrow>
           if s = [] then Inl (LibraryError ''render'') else Inr (doc @ [sec])),
      to_bytes = (\<lambda>doc.
         Inr (''%PDF-'' @ concat (map (\<lambda>sec. case sec of Section s \<Rightarrow> map char_of s) doc))) \<rparr>"

text \<open>
  A directory in which \<^verbatim>\<open>a.md\<close> and \<^verbatim>\<open>./a.md\<close> name the same file, file 0.
  The files 0, 1 and 2 exist; the other paths name no file yet.
\<close>

definition disk_resolve :: "path \<Rightarrow> file_id" where
  "disk_resolve p =
    (if p = ''a.md'' \<or> p = ''./a.md'' then 0
     else if p = ''empty.md'' then 1
     else if p = ''old.html'' then 2
     else if p = ''out.html'' then 3
     else if p = ''out.pdf'' then 4
     else if p = ''locked.html'' then 5
     else 6)"

definition disk :: world where
  "disk =
    \<lparr> resolve = disk_resolve,
      files = [0 \<mapsto> ''x'', 1 \<mapsto> [], 2 \<mapsto> ''old''],
      read_denied = {},
      write_denied = {''locked.html''},
      stdout = [] \<rparr>"

section \<open>Properties\<close>

subsection \<open>The codec\<close>

text \<open>
  What the encoder produces, the decoder reads back: a text written by \<open>write_text\<close>
  is the text a later \<open>utf8_decode\<close> of the file returns.
\<close>

lemma split3: "(c::nat) div 4096 * 4096 + c div 64 mod 64 * 64 + c mod 64 = c"
proof -
  have "c div 64 div 64 = c div 4096" by (simp add: div_mult2_eq [symmetric])
  then have "c div 4096 * 64 + c div 64 mod 64 = c div 64"
    by (metis div_mult_mod_eq)
  then have "(c div 4096 * 64 + c div 64 mod 64) * 64 + c mod 64 = c"
    by simp
  then show ?thesis by (simp add: algebra_simps)
qed

lemma split4:
  "(c::nat) div 262144 * 262144 + c div 4096 mod 64 * 4096 + c div 64 mod 64 * 64 + c mod 64 = c"
proof -
  have "c div 4096 div 64 = c div 262144" by (simp add: div_mult2_eq [symmetric])
  then have "c div 262144 * 64 + c div 4096 mod 64 = c div 4096"
    by (metis div_mult_mod_eq)
  then have "(c div 262144 * 64 + c div 4096 mod 64) * 4096 = c div 4096 * 4096"
    by simp
  then have "c div 262144 * 262144 + c div 4096 mod 64 * 4096 = c div 4096 * 4096"
    by (simp add: algebra_simps)
  with split3 [of c] show ?thesis by simp
qed

lemma decode_encode_point:
  assumes "encode_point c = Some us"
  shows "decode_units (us @ r) = map_option ((#) c) (decode_units r)"
proof -
  consider "c < 128" | "128 \<le> c" "c < 2048"
    | "2048 \<le> c" "c < 65536" "\<not> (55296 \<le> c \<and> c < 57344)"
    | "65536 \<le> c" "c < 1114112"
    using assms by (auto simp: encode_point_def split: if_splits)
  then show ?thesis
  proof cases
    case 1
    with assms show ?thesis by (auto simp: encode_point_def)
  next
    case 2
    then have us: "us = [192 + c div 64, 128 + c mod 64]"
      using assms by (auto simp: encode_point_def)
    have "2 \<le> c div 64" "c div 64 < 32" using 2 by auto
    then show ?thesis unfolding us by (simp add: is_cont_def)
  next
    case 3
    then have us: "us = [224 + c div 4096, 128 + (c div 64) mod 64, 128 + c mod 64]"
      using assms by (auto simp: encode_point_def)
    have "c div 4096 < 16" using 3 by auto
    then show ?thesis unfolding us using 3 by (simp add: is_cont_def split3)
  next
    case 4
    then have us: "us = [240 + c div 262144, 128 + (c div 4096) mod 64, 128 + (c div 64) mod 64,
             128 + c mod 64]"
      using assms by (auto simp: encode_point_def)
    have "c div 262144 < 5" using 4 by auto
    then show ?thesis unfolding us using 4 by (simp add: is_cont_def split4)
  qed
qed

lemma decode_encode_units:
  "encode_units s = Some us \<Longrightarrow> decode_units us = Some s"
proof (induction s arbitrary: us)
  case Nil
  then show ?case by simp
next
  case (Cons c cs)
  then obtain u v where u: "encode_point c = Some u" and v: "encode_units cs = Some v"
    and us: "us = u @ v"
    by (auto split: option.splits)
  from Cons.IH [OF v] decode_encode_point [OF u, of v] us show ?case by simp
qed

lemma encode_units_bytes:
  "encode_units s = Some us \<Longrightarrow> \<forall>u \<in> set us. u < 256"
proof (induction s arbitrary: us)
  case Nil
  then show ?case by simp
next
  case (Cons c cs)
  then obtain u v where u: "encode_point c = Some u" and v: "encode_units cs = Some v"
    and us: "us = u @ v"
    by (auto split: option.splits)
  have "\<forall>x \<in> set u. x < 256"
    using u by (auto simp: encode_point_def split: if_splits)
  with Cons.IH [OF v] us show ?case by auto
qed

lemma utf8_roundtrip:
  assumes "utf8_encode s = Some b"
  shows "utf8_decode b = Some s"
proof -
  from assms obtain us where us: "encode_units s = Some us" and b: "b = map char_of us"
    by (auto simp: utf8_encode_def)
  have "map of_char b = us"
    unfolding b using encode_units_bytes [OF us]
    by (simp add: map_idI)
  with decode_encode_units [OF us] show ?thesis by (simp add: utf8_decode_def)
qed

subsection \<open>What each step reads and what it may change\<close>

lemma read_text_missing:
  "files w (resolve w p) = None \<Longrightarrow> read_text p w = Inl FileNotFoundError"
  by (simp add: read_text_def open_read_def)

lemma read_text_valid:
  "files w (resolve w p) = Some b \<Longrightarrow> p \<notin> read_denied w \<Longrightarrow> utf8_decode b = Some s \<Longrightarrow>
     read_text p w = Inr (universal_newlines s)"
  by (simp add: read_text_def open_read_def)

lemma read_text_cong:
  "files w' (resolve w' p) = files w (resolve w p) \<Longrightarrow> read_denied w' = read_denied w \<Longrightarrow>
     read_text p w' = read_text p w"
  by (simp add: read_text_def open_read_def split: option.splits)

lemma write_text_frame:
  "resolve (snd (write_text p s w)) = resolve w"
  "read_denied (snd (write_text p s w)) = read_denied w"
  "write_denied (snd (write_text p s w)) = write_denied w"
  "stdout (snd (write_text p s w)) = stdout w"
  "i \<noteq> resolve w p \<Longrightarrow> files (snd (write_text p s w)) i = files w i"
  by (simp_all add: write_text_def open_write_def split: option.splits)

lemma save_frame:
  "resolve (snd (save lib pdf p w)) = resolve w"
  "read_denied (snd (save lib pdf p w)) = read_denied w"
  "write_denied (snd (save lib pdf p w)) = write_denied w"
  "stdout (snd (save lib pdf p w)) = stdout w"
  "i \<noteq> resolve w p \<Longrightarrow> files (snd (save lib pdf p w)) i = files w i"
  by (simp_all add: save_def open_write_def split: sum.splits)

lemma save_stdout: "save lib pdf p w = (r, w') \<Longrightarrow> stdout w' = stdout w"
  using save_frame(4) [of lib pdf p w] by simp

lemma md2html_frame:
  "resolve (snd (md2html markdown md_file output_file w)) = resolve w"
  "read_denied (snd (md2html markdown md_file output_file w)) = read_denied w"
  "write_denied (snd (md2html markdown md_file output_file w)) = write_denied w"
  "stdout (snd (md2html markdown md_file output_file w)) = stdout w"
  "i \<noteq> resolve w output_file \<Longrightarrow>
     files (snd (md2html markdown md_file output_file w)) i = files w i"
  by (simp_all add: md2html_def write_text_frame split: sum.splits)

lemma md2pdf_frame:
  "resolve (snd (md2pdf lib md_file output_file w)) = resolve w"
  "read_denied (snd (md2pdf lib md_file output_file w)) = read_denied w"
  "write_denied (snd (md2pdf lib md_file output_file w)) = write_denied w"
  "i \<noteq> resolve w output_file \<Longrightarrow>
     files (snd (md2pdf lib md_file output_file w)) i = files w i"
  by (auto simp: md2pdf_def print_def save_def open_write_def split: sum.splits prod.splits)

subsection \<open>The concrete file system\<close>

lemma disk_resolve_simps:
  "resolve disk ''a.md'' = 0"
  "resolve disk ''./a.md'' = 0"
  "resolve disk ''empty.md'' = 1"
  "resolve disk ''old.html'' = 2"
  "resolve disk ''out.html'' = 3"
  "resolve disk ''out.pdf'' = 4"
  "resolve disk ''locked.html'' = 5"
  "resolve disk ''none.md'' = 6"
  by (simp_all add: disk_def disk_resolve_def)

lemma disk_simps:
  "files disk (resolve disk ''a.md'') = Some ''x''"
  "files disk (resolve disk ''empty.md'') = Some []"
  "files disk (resolve disk ''old.html'') = Some ''old''"
  "files disk (resolve disk ''none.md'') = None"
  "files disk (resolve disk ''out.html'') = None"
  "files disk (resolve disk ''out.pdf'') = None"
  "read_denied disk = {}"
  "write_denied disk = {''locked.html''}"
  "stdout disk = []"
  by (simp_all add: disk_def disk_resolve_def)

lemma decode_x: "utf8_decode ''x'' = Some [120]"
  by code_simp

lemma decode_empty: "utf8_decode [] = Some []"
  by (simp add: utf8_decode_def)

lemma read_a: "read_text ''a.md'' disk = Inr [120]"
  by (simp add: read_text_def open_read_def disk_simps decode_x)

lemma paragraph_x:
  "paragraph_markdown (universal_newlines [120]) = Inr (ascii ''<p>'' @ [120] @ ascii ''</p>'')"
  by (simp add: paragraph_markdown_def)

lemma encode_paragraph_x:
  "utf8_encode (ascii ''<p>'' @ [120] @ ascii ''</p>'') = Some ''<p>x</p>''"
  by code_simp

subsection \<open>The claims\<close>

text \<open>
  C1. When the input path names a readable file whose bytes are valid UTF-8, \<open>md2pdf\<close>
  takes the whole decoded content as one document, puts it into exactly one
  \<open>Section\<close>, adds that one section to a fresh \<open>MarkdownPdf\<close> object and stores
  the serialised object at the output path, creating or replacing that file. It succeeds
  exactly when the library accepts the section and serialises the document and the output
  path can be opened for writing, and then nothing but the output file and the printed
  confirmation differs from the world before.
\<close>

theorem md2pdf_one_section:
  assumes "files w (resolve w md_file) = Some b" and "md_file \<notin> read_denied w"
    and "utf8_decode b = Some s"
  shows "md2pdf lib md_file output_file w = (Inr (), w') \<longleftrightarrow>
     (\<exists>pdf_obj out.
        add_section lib (MarkdownPdf lib) (Section (universal_newlines s)) = Inr pdf_obj
      \<and> to_bytes lib pdf_obj = Inr out
      \<and> output_file \<notin> write_denied w
      \<and> w' = w\<lparr>files := (files w)(resolve w output_file \<mapsto> out),
                 stdout := stdout w @ [''PDF generated successfully as '' @ output_file]\<rparr>)"
proof -
  have r: "read_text md_file w = Inr (universal_newlines s)"
    using assms by (rule read_text_valid)
  show ?thesis
    by (auto simp: md2pdf_def r save_def print_def open_write_def
        split: sum.splits prod.splits)
qed

theorem md2pdf_one_section_witness:
  "files disk (resolve disk ''a.md'') = Some ''x'' \<and> ''a.md'' \<notin> read_denied disk
   \<and> utf8_decode ''x'' = Some [120]
   \<and> md2pdf listing_pdf ''a.md'' ''out.pdf'' disk
       = (Inr (), disk\<lparr>files := (files disk)(resolve disk ''out.pdf'' \<mapsto> ''%PDF-x''),
                       stdout := stdout disk @ [''PDF generated successfully as out.pdf'']\<rparr>)"
proof -
  have h1: "files disk (resolve disk ''a.md'') = Some ''x''" and h2: "''a.md'' \<notin> read_denied disk"
    by (simp_all add: disk_simps)
  have a: "add_section listing_pdf (MarkdownPdf listing_pdf) (Section (universal_newlines [120]))
             = Inr [Section [120]]"
    by (simp add: listing_pdf_def)
  have b: "to_bytes listing_pdf [Section [120]] = Inr ''%PDF-x''"
    by code_simp
  have c: "''out.pdf'' \<notin> write_denied disk"
    by (simp add: disk_simps)
  have "md2pdf listing_pdf ''a.md'' ''out.pdf'' disk
       = (Inr (), disk\<lparr>files := (files disk)(resolve disk ''out.pdf'' \<mapsto> ''%PDF-x''),
                       stdout := stdout disk @ [''PDF generated successfully as '' @ ''out.pdf'']\<rparr>)"
    using a b c by (intro iffD2 [OF md2pdf_one_section [OF h1 h2 decode_x]] exI conjI) simp_all
  then show ?thesis using h1 h2 decode_x by simp
qed

text \<open>
  C2. When the input path names a readable file whose bytes are valid UTF-8, a successful
  \<open>md2html\<close> leaves at the output path exactly the UTF-8 encoding of what the
  transformer returned for the text read: the program adds nothing around it. It succeeds
  exactly when the transformer returns, its result can be encoded and the output path can
  be opened for writing.
\<close>

theorem md2html_writes_transformation:
  assumes "files w (resolve w md_file) = Some b" and "md_file \<notin> read_denied w"
    and "utf8_decode b = Some s"
  shows "md2html markdown md_file output_file w = (Inr (), w') \<longleftrightarrow>
     (\<exists>html_output out.
        markdown (universal_newlines s) = Inr html_output
      \<and> utf8_encode html_output = Some out
      \<and> output_file \<notin> write_denied w
      \<and> w' = w\<lparr>files := (files w)(resolve w output_file \<mapsto> out)\<rparr>)"
proof -
  have r: "read_text md_file w = Inr (universal_newlines s)"
    using assms by (rule read_text_valid)
  show ?thesis
    by (auto simp: md2html_def r write_text_def open_write_def
        split: sum.splits option.splits)
qed

theorem md2html_writes_transformation_witness:
  "files disk (resolve disk ''a.md'') = Some ''x'' \<and> ''a.md'' \<notin> read_denied disk
   \<and> utf8_decode ''x'' = Some [120]
   \<and> md2html paragraph_markdown ''a.md'' ''old.html'' disk
       = (Inr (), disk\<lparr>files := (files disk)(resolve disk ''old.html'' \<mapsto> ''<p>x</p>'')\<rparr>)"
proof -
  have h1: "files disk (resolve disk ''a.md'') = Some ''x''" and h2: "''a.md'' \<notin> read_denied disk"
    by (simp_all add: disk_simps)
  have c: "''old.html'' \<notin> write_denied disk"
    by (simp add: disk_simps)
  have "md2html paragraph_markdown ''a.md'' ''old.html'' disk
       = (Inr (), disk\<lparr>files := (files disk)(resolve disk ''old.html'' \<mapsto> ''<p>x</p>'')\<rparr>)"
    using paragraph_x encode_paragraph_x c
    by (intro iffD2 [OF md2html_writes_transformation [OF h1 h2 decode_x]] exI conjI)
      simp_all
  then show ?thesis using h1 h2 decode_x by simp
qed

text \<open>
  C3. When the input path names no file, both \<open>md2pdf\<close> and \<open>md2html\<close> fail with
  \<open>FileNotFoundError\<close> and leave the whole world, so also the output path, as it was.
\<close>

theorem missing_input_fails:
  assumes "files w (resolve w md_file) = None"
  shows "md2pdf lib md_file output_file w = (Inl FileNotFoundError, w)
       \<and> md2html markdown md_file output_file w = (Inl FileNotFoundError, w)"
  using assms by (simp add: md2pdf_def md2html_def read_text_missing)

theorem missing_input_fails_witness:
  "files disk (resolve disk ''none.md'') = None
   \<and> md2pdf listing_pdf ''none.md'' ''old.html'' disk = (Inl FileNotFoundError, disk)
   \<and> md2html paragraph_markdown ''none.md'' ''old.html'' disk = (Inl FileNotFoundError, disk)"
proof -
  have h: "files disk (resolve disk ''none.md'') = None"
    by (rule disk_simps)
  from missing_input_fails [where w = disk and md_file = "''none.md''", OF h]
  show ?thesis using h by simp
qed

text \<open>
  C4. \<open>md2html\<close> is idempotent: when the input file holds the same content at the second
  run as at the first, the second run ends with the same result as the first and leaves
  the world, so also the bytes of the output file, exactly as the first run left it.
\<close>

theorem md2html_idempotent:
  assumes "files (snd (md2html markdown md_file output_file w)) (resolve w md_file)
             = files w (resolve w md_file)"
  shows "md2html markdown md_file output_file (snd (md2html markdown md_file output_file w))
       = md2html markdown md_file output_file w"
proof -
  let ?w1 = "snd (md2html markdown md_file output_file w)"
  have r: "read_text md_file ?w1 = read_text md_file w"
    using assms by (intro read_text_cong) (simp_all add: md2html_frame)
  show ?thesis
  proof (cases "read_text md_file w")
    case (Inl e)
    then show ?thesis by (simp add: md2html_def)
  next
    case (Inr s)
    show ?thesis
    proof (cases "markdown s")
      case (Inl e)
      with Inr show ?thesis by (simp add: md2html_def)
    next
      case html: (Inr h)
      have w1: "?w1 = snd (write_text output_file h w)"
        using Inr html by (simp add: md2html_def)
      have "md2html markdown md_file output_file ?w1 = write_text output_file h ?w1"
        using r Inr html by (simp add: md2html_def)
      also have "\<dots> = write_text output_file h w"
        unfolding w1 by (simp add: write_text_def open_write_def split: option.splits)
      also have "\<dots> = md2html markdown md_file output_file w"
        using Inr html by (simp add: md2html_def)
      finally show ?thesis .
    qed
  qed
qed

theorem md2html_idempotent_witness:
  "files (snd (md2html paragraph_markdown ''a.md'' ''out.html'' disk)) (resolve disk ''a.md'')
     = files disk (resolve disk ''a.md'')
   \<and> md2html paragraph_markdown ''a.md'' ''out.html''
       (snd (md2html paragraph_markdown ''a.md'' ''out.html'' disk))
     = md2html paragraph_markdown ''a.md'' ''out.html'' disk
   \<and> files (snd (md2html paragraph_markdown ''a.md'' ''out.html'' disk))
       (resolve disk ''out.html'')
     = Some ''<p>x</p>''"
proof -
  have h: "files (snd (md2html paragraph_markdown ''a.md'' ''out.html'' disk))
       (resolve disk ''a.md'')
     = files disk (resolve disk ''a.md'')"
    by (simp add: md2html_frame disk_resolve_simps)
  have f: "files (snd (md2html paragraph_markdown ''a.md'' ''out.html'' disk))
       (resolve disk ''out.html'')
     = Some ''<p>x</p>''"
    by code_simp
  from md2html_idempotent [OF h] h f show ?thesis by simp
qed

text \<open>
  C5. Neither operation handles an error. \<open>md2html\<close> fails with \<open>e\<close> exactly when
  reading the input, the transformer or writing the output fails with \<open>e\<close>, the later
  steps being reached only when the earlier ones returned; \<open>md2pdf\<close> fails with \<open>e\<close>
  exactly when reading the input, \<open>add_section\<close> or \<open>save\<close> fails with \<open>e\<close>. So
  every failure of a step reaches the caller as it was raised, and no step's failure is
  turned into a success or into another error.
\<close>

theorem failures_propagate:
  "(fst (md2html markdown md_file output_file w) = Inl e \<longleftrightarrow>
      read_text md_file w = Inl e
    \<or> (\<exists>s. read_text md_file w = Inr s
          \<and> (markdown s = Inl e
             \<or> (\<exists>h. markdown s = Inr h \<and> fst (write_text output_file h w) = Inl e))))
 \<and> (fst (md2pdf lib md_file output_file w) = Inl e \<longleftrightarrow>
      read_text md_file w = Inl e
    \<or> (\<exists>s. read_text md_file w = Inr s
          \<and> (add_section lib (MarkdownPdf lib) (Section s) = Inl e
             \<or> (\<exists>pdf_obj. add_section lib (MarkdownPdf lib) (Section s) = Inr pdf_obj
                   \<and> fst (save lib pdf_obj output_file w) = Inl e))))"
proof (intro conjI)
  show "fst (md2html markdown md_file output_file w) = Inl e \<longleftrightarrow>
      read_text md_file w = Inl e
    \<or> (\<exists>s. read_text md_file w = Inr s
          \<and> (markdown s = Inl e
             \<or> (\<exists>h. markdown s = Inr h \<and> fst (write_text output_file h w) = Inl e)))"
    by (auto simp: md2html_def split: sum.splits)
next
  show "fst (md2pdf lib md_file output_file w) = Inl e \<longleftrightarrow>
      read_text md_file w = Inl e
    \<or> (\<exists>s. read_text md_file w = Inr s
          \<and> (add_section lib (MarkdownPdf lib) (Section s) = Inl e
             \<or> (\<exists>pdf_obj. add_section lib (MarkdownPdf lib) (Section s) = Inr pdf_obj
                   \<and> fst (save lib pdf_obj output_file w) = Inl e)))"
    by (auto simp: md2pdf_def print_def split: sum.splits prod.splits)
qed

theorem failures_propagate_witness:
  "read_text ''a.md'' disk = Inr [120]
   \<and> paragraph_markdown [120] = Inr (ascii ''<p>'' @ [120] @ ascii ''</p>'')
   \<and> fst (write_text ''locked.html'' (ascii ''<p>'' @ [120] @ ascii ''</p>'') disk)
       = Inl PermissionError
   \<and> fst (md2html paragraph_markdown ''a.md'' ''locked.html'' disk) = Inl PermissionError
   \<and> add_section listing_pdf (MarkdownPdf listing_pdf) (Section [120]) = Inr [Section [120]]
   \<and> fst (save listing_pdf [Section [120]] ''locked.html'' disk) = Inl PermissionError
   \<and> fst (md2pdf listing_pdf ''a.md'' ''locked.html'' disk) = Inl PermissionError"
proof -
  have m: "paragraph_markdown [120] = Inr (ascii ''<p>'' @ [120] @ ascii ''</p>'')"
    by (simp add: paragraph_markdown_def)
  have wr: "fst (write_text ''locked.html'' (ascii ''<p>'' @ [120] @ ascii ''</p>'') disk)
       = Inl PermissionError"
    by (simp add: write_text_def open_write_def disk_simps)
  have a: "add_section listing_pdf (MarkdownPdf listing_pdf) (Section [120]) = Inr [Section [120]]"
    by (simp add: listing_pdf_def)
  have sv: "fst (save listing_pdf [Section [120]] ''locked.html'' disk) = Inl PermissionError"
    by (simp add: save_def open_write_def disk_simps listing_pdf_def)
  have 1: "fst (md2html paragraph_markdown ''a.md'' ''locked.html'' disk) = Inl PermissionError"
    using read_a m wr
    by (intro iffD2 [OF conjunct1 [OF failures_propagate]]) blast
  have 2: "fst (md2pdf listing_pdf ''a.md'' ''locked.html'' disk) = Inl PermissionError"
    using read_a a sv
    by (intro iffD2 [OF conjunct2 [OF failures_propagate]]) blast
  from read_a m wr a sv 1 2 show ?thesis by blast
qed

text \<open>
  C6. A successful \<open>md2pdf\<close> prints one line, the confirmation that ends in the output
  path; \<open>md2html\<close> prints nothing, whether it succeeds or fails.
\<close>

theorem success_message:
  "(fst (md2pdf lib md_file output_file w) = Inr () \<longrightarrow>
      stdout (snd (md2pdf lib md_file output_file w))
        = stdout w @ [''PDF generated successfully as '' @ output_file])
 \<and> stdout (snd (md2html markdown md_file output_file w)) = stdout w"
  by (auto simp: md2pdf_def print_def md2html_frame
      split: sum.splits prod.splits dest: save_stdout)

theorem success_message_witness:
  "fst (md2pdf listing_pdf ''a.md'' ''out.pdf'' disk) = Inr ()
   \<and> stdout (snd (md2pdf listing_pdf ''a.md'' ''out.pdf'' disk))
       = [''PDF generated successfully as out.pdf'']
   \<and> fst (md2html paragraph_markdown ''a.md'' ''out.pdf'' disk) = Inr ()
   \<and> stdout (snd (md2html paragraph_markdown ''a.md'' ''out.pdf'' disk)) = []"
proof -
  have h: "fst (md2pdf listing_pdf ''a.md'' ''out.pdf'' disk) = Inr ()"
    by code_simp
  have g: "fst (md2html paragraph_markdown ''a.md'' ''out.pdf'' disk) = Inr ()"
    by code_simp
  from success_message [of listing_pdf "''a.md''" "''out.pdf''" disk paragraph_markdown] h g
  show ?thesis by (simp add: disk_simps)
qed

text \<open>
  C8. \<open>md2html\<close> opens the output file only after the transformer has returned: when
  the input was read and the transformer raises, the operation fails with the
  transformer's error and the world is as before, so the output file is neither created
  nor truncated.
\<close>

theorem transform_failure_keeps_output:
  assumes "read_text md_file w = Inr s" and "markdown s = Inl e"
  shows "md2html markdown md_file output_file w = (Inl e, w)"
  using assms by (simp add: md2html_def)

theorem transform_failure_keeps_output_witness:
  "read_text ''a.md'' disk = Inr [120]
   \<and> raising_markdown [120] = Inl (LibraryError ''transform'')
   \<and> md2html raising_markdown ''a.md'' ''old.html'' disk = (Inl (LibraryError ''transform''), disk)
   \<and> files disk (resolve disk ''old.html'') = Some ''old''"
proof -
  have m: "raising_markdown [120] = Inl (LibraryError ''transform'')"
    by (simp add: raising_markdown_def)
  from transform_failure_keeps_output
      [where markdown = raising_markdown and output_file = "''old.html''", OF read_a m]
    read_a m
  show ?thesis by (simp add: disk_simps)
qed

text \<open>
  C9, as the claim is stated: the input file is not always unchanged. With the output path
  equal to the input path, \<open>md2html\<close> replaces the content \<open>x\<close> of the input file.
\<close>

theorem input_overwritten:
  "files (snd (md2html paragraph_markdown ''a.md'' ''a.md'' disk)) (resolve disk ''a.md'')
     \<noteq> files disk (resolve disk ''a.md'')"
  by code_simp

text \<open>
  The same happens when the two paths are different strings that name one file: neither
  operation compares or normalises its paths.
\<close>

lemma input_overwritten_through_alias:
  "''./a.md'' \<noteq> ''a.md''
   \<and> files disk (resolve disk ''a.md'') = Some ''x''
   \<and> files (snd (md2html paragraph_markdown ''a.md'' ''./a.md'' disk)) (resolve disk ''a.md'')
       = Some ''<p>x</p>''
   \<and> files (snd (md2pdf listing_pdf ''a.md'' ''./a.md'' disk)) (resolve disk ''a.md'')
       = Some ''%PDF-x''"
  by code_simp

text \<open>
  C9, amended. The input file is opened for reading only, and the one file either
  operation writes is the file the output path names: when the output path names a file
  other than the one the input path names, the content of the input file after \<open>md2pdf\<close>
  or \<open>md2html\<close>, successful or failed, is the content before. For \<open>md2pdf\<close> the
  writing is done by the library's \<open>save\<close>, taken to write the file it is given and no
  other.
\<close>

theorem input_file_kept:
  assumes "resolve w output_file \<noteq> resolve w md_file"
  shows "files (snd (md2pdf lib md_file output_file w)) (resolve w md_file)
           = files w (resolve w md_file)
       \<and> files (snd (md2html markdown md_file output_file w)) (resolve w md_file)
           = files w (resolve w md_file)"
  using assms by (simp add: md2pdf_frame md2html_frame)

theorem input_file_kept_witness:
  "resolve disk ''out.pdf'' \<noteq> resolve disk ''a.md''
   \<and> files (snd (md2pdf listing_pdf ''a.md'' ''out.pdf'' disk)) (resolve disk ''a.md'')
       = Some ''x''
   \<and> files (snd (md2html paragraph_markdown ''a.md'' ''out.pdf'' disk)) (resolve disk ''a.md'')
       = Some ''x''"
proof -
  have h: "resolve disk ''out.pdf'' \<noteq> resolve disk ''a.md''"
    by (simp add: disk_resolve_simps)
  from input_file_kept [OF h, of listing_pdf paragraph_markdown] h
  show ?thesis by (simp add: disk_simps)
qed

text \<open>
  C10. When the input file is readable and empty, the transformer maps the empty text to
  the empty text and the output path can be opened for writing, \<open>md2html\<close> succeeds and
  the output file holds zero bytes.
\<close>

theorem empty_input_empty_output:
  assumes "files w (resolve w md_file) = Some []" and "md_file \<notin> read_denied w"
    and "markdown [] = Inr []" and "output_file \<notin> write_denied w"
  shows "md2html markdown md_file output_file w
       = (Inr (), w\<lparr>files := (files w)(resolve w output_file \<mapsto> [])\<rparr>)"
  using assms
  by (simp add: md2html_def read_text_def open_read_def utf8_decode_def
      write_text_def open_write_def utf8_encode_def)

theorem empty_input_empty_output_witness:
  "files disk (resolve disk ''empty.md'') = Some [] \<and> ''empty.md'' \<notin> read_denied disk
   \<and> paragraph_markdown [] = Inr [] \<and> ''old.html'' \<notin> write_denied disk
   \<and> md2html paragraph_markdown ''empty.md'' ''old.html'' disk
       = (Inr (), disk\<lparr>files := (files disk)(resolve disk ''old.html'' \<mapsto> [])\<rparr>)"
proof -
  have h1: "files disk (resolve disk ''empty.md'') = Some []"
    and h2: "''empty.md'' \<notin> read_denied disk"
    and h4: "''old.html'' \<notin> write_denied disk"
    by (simp_all add: disk_simps)
  have h3: "paragraph_markdown [] = Inr []"
    by (simp add: paragraph_markdown_def)
  from empty_input_empty_output [where markdown = paragraph_markdown, OF h1 h2 h3 h4]
    h1 h2 h3 h4
  show ?thesis by simp
qed

end
